theory Spec2Isabelle
  imports Main "HOL-Library.Word" "HOL-Library.Char_ord" "HOL-Library.List_Lexorder"
begin

unbundle bit_operations_syntax

section \<open>Key model\<close>

text \<open>
  The embedding follows \<^verbatim>\<open>src/bccsp/gm/keyimport.go\<close>, which holds three Go files:
  the key importers of package \<^verbatim>\<open>gm\<close>, the option types of package \<^verbatim>\<open>bccsp\<close>
  and the file based key store.

  Go byte slices are lists of 8-bit words; a slice that may be \<^verbatim>\<open>nil\<close> is a
  \<open>bytes option\<close>, with \<open>None\<close> for \<^verbatim>\<open>nil\<close>.
\<close>

type_synonym byte = "8 word"
type_synonym bytes = "byte list"

text \<open>
  The key objects of \<^verbatim>\<open>crypto/ecdsa\<close> and of the \<^verbatim>\<open>sm2\<close> library: a public key is a
  curve (named here) with the coordinates of a point, a private key is a public
  key with the scalar \<^verbatim>\<open>D\<close>. The source only passes pointers to them around and
  never reads a field, so a value of these types stands for the pointer.
\<close>

datatype ecdsa_PublicKey = ECDSA_PublicKey string int int
datatype ecdsa_PrivateKey = ECDSA_PrivateKey ecdsa_PublicKey int
datatype sm2_PublicKey = SM2_PublicKey string int int
datatype sm2_PrivateKey = SM2_PrivateKey sm2_PublicKey int

text \<open>
  A value of type \<^verbatim>\<open>interface{}\<close>, as far as the type switches and type assertions
  of the source tell values apart. \<open>INil\<close> is the nil interface,
  \<open>IBytes None\<close> a nil \<^verbatim>\<open>[]byte\<close>, \<open>ICertificate None\<close> a nil \<^verbatim>\<open>*x509.Certificate\<close>,
  \<open>IOther\<close> a value of any other dynamic type (named by its type).
  Of \<^verbatim>\<open>x509.Certificate\<close> the source reads the field \<^verbatim>\<open>PublicKey\<close> only.
\<close>

datatype iface =
    INil
  | IBytes "bytes option"
  | IEcdsaPrivateKey ecdsa_PrivateKey
  | ISm2PrivateKey sm2_PrivateKey
  | IEcdsaPublicKey ecdsa_PublicKey
  | ISm2PublicKey sm2_PublicKey
  | ICertificate "x509_Certificate option"
  | IOther string
and x509_Certificate = Certificate (PublicKey: iface)

text \<open>
  The implementations of \<^verbatim>\<open>bccsp.Key\<close> that the source builds and switches on, with
  the fields its struct literals give them: \<^verbatim>\<open>&sm4PrivateKey{sm4Raw, false}\<close>,
  \<^verbatim>\<open>&aesPrivateKey{key, false}\<close>, \<^verbatim>\<open>&ecdsaPrivateKey{k}\<close> and so on.
  \<open>ForeignKey\<close> is any other implementation of the interface. A key stands for
  a pointer that is not nil; the nil interface is \<open>None\<close> of \<open>key option\<close>.
\<close>

datatype key =
    EcdsaPrivateKey ecdsa_PrivateKey
  | Sm2PrivateKey sm2_PrivateKey
  | EcdsaPublicKey ecdsa_PublicKey
  | Sm2PublicKey sm2_PublicKey
  | AesPrivateKey bytes bool
  | Sm4PrivateKey bytes bool
  | ForeignKey string

section \<open>Import options\<close>

text \<open>
  The key import option types of package \<^verbatim>\<open>bccsp\<close>; each holds the field
  \<^verbatim>\<open>Temporary\<close>. \<^verbatim>\<open>SM2GoPublicKeyImportOpts\<close> is the type the certificate importer
  names in its re-dispatch.
\<close>

datatype keyImportOpts =
    ECDSAPKIXPublicKeyImportOpts bool
  | ECDSAPrivateKeyImportOpts bool
  | SM2PrivateKeyImportOpts bool
  | ECDSAGoPublicKeyImportOpts bool
  | SM2PublicKeyImportOpts bool
  | SM2GoPublicKeyImportOpts bool
  | AES256ImportKeyOpts bool
  | SM4ImportKeyOpts bool
  | HMACImportKeyOpts bool
  | X509PublicKeyImportOpts bool


fun Algorithm :: "keyImportOpts \<Rightarrow> string" where
  "Algorithm (ECDSAPKIXPublicKeyImportOpts t) = ''ECDSA''"
| "Algorithm (ECDSAPrivateKeyImportOpts t) = ''ECDSA''"
| "Algorithm (SM2PrivateKeyImportOpts t) = ''SM2''"
| "Algorithm (ECDSAGoPublicKeyImportOpts t) = ''ECDSA''"
| "Algorithm (SM2PublicKeyImportOpts t) = ''SM2''"
| "Algorithm (SM2GoPublicKeyImportOpts t) = ''SM2''"
| "Algorithm (AES256ImportKeyOpts t) = ''AES''"
| "Algorithm (SM4ImportKeyOpts t) = ''SM4''"
| "Algorithm (HMACImportKeyOpts t) = ''HMAC''"
| "Algorithm (X509PublicKeyImportOpts t) = ''X509Certificate''"

text \<open>\<^verbatim>\<open>reflect.TypeOf\<close> of an options value: the key of the importer registry.\<close>

datatype optsType =
    T_ECDSAPKIXPublicKeyImportOpts
  | T_ECDSAPrivateKeyImportOpts
  | T_SM2PrivateKeyImportOpts
  | T_ECDSAGoPublicKeyImportOpts
  | T_SM2PublicKeyImportOpts
  | T_SM2GoPublicKeyImportOpts
  | T_AES256ImportKeyOpts
  | T_SM4ImportKeyOpts
  | T_HMACImportKeyOpts
  | T_X509PublicKeyImportOpts

fun TypeOf :: "keyImportOpts \<Rightarrow> optsType" where
  "TypeOf (ECDSAPKIXPublicKeyImportOpts t) = T_ECDSAPKIXPublicKeyImportOpts"
| "TypeOf (ECDSAPrivateKeyImportOpts t) = T_ECDSAPrivateKeyImportOpts"
| "TypeOf (SM2PrivateKeyImportOpts t) = T_SM2PrivateKeyImportOpts"
| "TypeOf (ECDSAGoPublicKeyImportOpts t) = T_ECDSAGoPublicKeyImportOpts"
| "TypeOf (SM2PublicKeyImportOpts t) = T_SM2PublicKeyImportOpts"
| "TypeOf (SM2GoPublicKeyImportOpts t) = T_SM2GoPublicKeyImportOpts"
| "TypeOf (AES256ImportKeyOpts t) = T_AES256ImportKeyOpts"
| "TypeOf (SM4ImportKeyOpts t) = T_SM4ImportKeyOpts"
| "TypeOf (HMACImportKeyOpts t) = T_HMACImportKeyOpts"
| "TypeOf (X509PublicKeyImportOpts t) = T_X509PublicKeyImportOpts"

section \<open>Errors\<close>

text \<open>
  One constructor for each error the source builds, named after its message, with
  the values the message is formatted from. \<open>OsError\<close> is an error of a system
  call, \<open>CollaboratorError\<close> one returned by a function of a package that is not
  part of the source (the PEM codec, the DER parsers). \<open>PanicNilDereference\<close> is
  the run-time panic of a nil pointer dereference or of a method call on a nil
  interface.
\<close>

datatype oserr = ENOENT | EACCES | ENOTDIR | EISDIR | EIO | EOF

datatype error =
    ExpectedByteArray
  | RawMustNotBeNil
  | InvalidKeyLength nat
  | FailedConvertingPKIXToSM2PublicKey error
  | ExpectedSm2PublicKey
  | ExpectedX509Certificate
  | CertificatePublicKeyTypeNotRecognized
  | PanicNilDereference
  | CollaboratorError string
  | OsError oserr
  | PathCannotBeEmpty
  | KeystoreAlreadyInitialized
  | InvalidSKIZeroLength
  | FailedLoadingKey bytes error
  | FailedLoadingSm4Key bytes error
  | FailedLoadingSecretKey bytes error
  | SecretKeyTypeNotRecognized
  | FailedLoadingPublicKey bytes error
  | PublicKeyTypeNotRecognized
  | KeyWithSKINotFound bytes string
  | ReadOnlyKeyStore
  | InvalidKeyNil
  | FailedStoringECDSAPrivateKey error
  | FailedStoringSM2PrivateKey error
  | FailedStoringECDSAPublicKey error
  | FailedStoringSM2PublicKey error
  | FailedStoringAESKey error
  | FailedStoringSM4Key error
  | KeyTypeNotRecognized key

section \<open>Collaborators\<close>

text \<open>
  The functions the source calls in packages that are not part of it are taken as
  parameters, so that every theorem holds for each implementation of them:
  the two DER parsers of package \<^verbatim>\<open>gm\<close>, the PEM codec of package \<^verbatim>\<open>utils\<close>, and the
  method \<^verbatim>\<open>SKI\<close> of the key types.
\<close>

record collab =
  parsePKIXSM2PublicKey :: "bytes \<Rightarrow> error + sm2_PublicKey"
  parsePKCS8SM2PrivateKey :: "bytes \<Rightarrow> error + sm2_PrivateKey"
  SKI :: "key \<Rightarrow> bytes"
  PrivateKeyToPEM :: "iface \<Rightarrow> bytes option \<Rightarrow> error + bytes"
  PEMtoPrivateKey :: "bytes \<Rightarrow> bytes option \<Rightarrow> error + iface"
  PublicKeyToPEM :: "iface \<Rightarrow> bytes option \<Rightarrow> error + bytes"
  PEMtoPublicKey :: "bytes \<Rightarrow> bytes option \<Rightarrow> error + iface"
  AEStoEncryptedPEM :: "bytes \<Rightarrow> bytes option \<Rightarrow> error + bytes"
  PEMtoAES :: "bytes \<Rightarrow> bytes option \<Rightarrow> error + bytes"
  SM4EncryptPEMBlock :: "string \<Rightarrow> bytes \<Rightarrow> bytes option \<Rightarrow> error + bytes"

section \<open>Key importers\<close>

text \<open>\<^verbatim>\<open>sm4ImportKeyOptsKeyImporter.KeyImport\<close>. The options are not used.\<close>

definition sm4ImportKeyOptsKeyImporter_KeyImport ::
  "iface \<Rightarrow> keyImportOpts option \<Rightarrow> error + key" where
  "sm4ImportKeyOptsKeyImporter_KeyImport raw opts =
     (case raw of
        IBytes sm4Raw \<Rightarrow>
          (case sm4Raw of
             None \<Rightarrow> Inl RawMustNotBeNil
           | Some b \<Rightarrow>
               if length b \<noteq> 16 then Inl (InvalidKeyLength (length b))
               else Inr (Sm4PrivateKey b False))
      | _ \<Rightarrow> Inl ExpectedByteArray)"









section \<open>Strings and hexadecimal encoding\<close>

text \<open>\<^verbatim>\<open>strings.HasPrefix\<close> and \<^verbatim>\<open>strings.HasSuffix\<close>, as the Go library defines them.\<close>

definition HasPrefix :: "string \<Rightarrow> string \<Rightarrow> bool" where
  "HasPrefix s p = (length p \<le> length s \<and> take (length p) s = p)"

definition HasSuffix :: "string \<Rightarrow> string \<Rightarrow> bool" where
  "HasSuffix s x = (length x \<le> length s \<and> drop (length s - length x) s = x)"

text \<open>\<^verbatim>\<open>hex.EncodeToString\<close>: two lower-case digits for each byte, high nibble first.\<close>

definition hextable :: string where
  "hextable = ''0123456789abcdef''"

definition EncodeToString :: "bytes \<Rightarrow> string" where
  "EncodeToString src =
     concat (map (\<lambda>v. [hextable ! unat (drop_bit 4 v), hextable ! unat (v AND 0x0f)]) src)"

section \<open>The file system\<close>

text \<open>
  The store works on one directory. The model of the file system is a map from
  directory paths to nodes: a directory with its permission bits and its entries,
  or something that is not a directory. Parent directories are outside the model.
  An entry is what \<^verbatim>\<open>os.FileInfo\<close> tells of a file, with the bytes a read returns;
  the size is the one the directory listing reports.

  The environment may fail every system call: \<open>fault\<close> gives the error of a call on
  a path, if any. Each call is recorded in \<open>log\<close>, so that a theorem can say which
  files were read. \<open>umask\<close> is the file mode creation mask of the process.
  A file path is the pair of a directory and a name, which is what
  \<^verbatim>\<open>filepath.Join\<close> makes of them.
\<close>

datatype syscall =
  SysStat | SysOpen | SysReaddir | SysMkdirAll | SysReadDir | SysReadFile | SysWriteFile

record fileInfo =
  fiName :: string
  fiIsDir :: bool
  fiSize :: nat
  fiMode :: "32 word"
  fiData :: bytes

datatype node = Directory "32 word" "fileInfo list" | NonDirectory

record world =
  nodes :: "string \<rightharpoonup> node"
  umask :: "32 word"
  fault :: "syscall \<Rightarrow> string \<Rightarrow> oserr option"
  log :: "(syscall \<times> string) list"

type_synonym filepath = "string \<times> string"

definition filepath_Join :: "string \<Rightarrow> string \<Rightarrow> filepath" where
  "filepath_Join dir name = (dir, name)"

definition pathString :: "filepath \<Rightarrow> string" where
  "pathString p = fst p @ ''/'' @ snd p"

definition record_call :: "syscall \<Rightarrow> string \<Rightarrow> world \<Rightarrow> world" where
  "record_call sc p w = w\<lparr>log := log w @ [(sc, p)]\<rparr>"

definition os_Stat :: "world \<Rightarrow> string \<Rightarrow> oserr option \<times> world" where
  "os_Stat w p =
     (case fault w SysStat p of
        Some e \<Rightarrow> Some e
      | None \<Rightarrow> (case nodes w p of None \<Rightarrow> Some ENOENT | Some n \<Rightarrow> None),
      record_call SysStat p w)"

definition os_IsNotExist :: "oserr \<Rightarrow> bool" where
  "os_IsNotExist e = (e = ENOENT)"

definition os_Open :: "world \<Rightarrow> string \<Rightarrow> oserr option \<times> world" where
  "os_Open w p =
     (case fault w SysOpen p of
        Some e \<Rightarrow> Some e
      | None \<Rightarrow> (case nodes w p of None \<Rightarrow> Some ENOENT | Some n \<Rightarrow> None),
      record_call SysOpen p w)"

text \<open>\<^verbatim>\<open>f.Readdir(n)\<close> for \<^verbatim>\<open>n > 0\<close>: at most \<open>n\<close> entries, \<^verbatim>\<open>io.EOF\<close> when there is none.\<close>

definition file_Readdir :: "world \<Rightarrow> string \<Rightarrow> nat \<Rightarrow> (oserr + fileInfo list) \<times> world" where
  "file_Readdir w p n =
     (case fault w SysReaddir p of
        Some e \<Rightarrow> Inl e
      | None \<Rightarrow>
          (case nodes w p of
             None \<Rightarrow> Inl ENOENT
           | Some NonDirectory \<Rightarrow> Inl ENOTDIR
           | Some (Directory m es) \<Rightarrow> if es = [] then Inl EOF else Inr (take n es)),
      record_call SysReaddir p w)"

text \<open>
  \<^verbatim>\<open>os.MkdirAll\<close>: nothing to do for a directory that exists, an error for a path
  that exists and is no directory, else a new empty directory whose permission
  bits are the requested ones without those of the mask.
\<close>

definition os_MkdirAll :: "world \<Rightarrow> string \<Rightarrow> 32 word \<Rightarrow> oserr option \<times> world" where
  "os_MkdirAll w p perm =
     (case fault w SysMkdirAll p of
        Some e \<Rightarrow> (Some e, record_call SysMkdirAll p w)
      | None \<Rightarrow>
          (case nodes w p of
             Some (Directory m es) \<Rightarrow> (None, record_call SysMkdirAll p w)
           | Some NonDirectory \<Rightarrow> (Some ENOTDIR, record_call SysMkdirAll p w)
           | None \<Rightarrow>
               (None, record_call SysMkdirAll p
                  (w\<lparr>nodes := (nodes w)(p \<mapsto> Directory (perm AND NOT (umask w)) [])\<rparr>))))"

text \<open>\<^verbatim>\<open>ioutil.ReadDir\<close>: the entries sorted by file name, none on an error.\<close>

definition ioutil_ReadDir :: "world \<Rightarrow> string \<Rightarrow> (fileInfo list \<times> oserr option) \<times> world" where
  "ioutil_ReadDir w p =
     (case fault w SysReadDir p of
        Some e \<Rightarrow> ([], Some e)
      | None \<Rightarrow>
          (case nodes w p of
             None \<Rightarrow> ([], Some ENOENT)
           | Some NonDirectory \<Rightarrow> ([], Some ENOTDIR)
           | Some (Directory m es) \<Rightarrow> (sort_key fiName es, None)),
      record_call SysReadDir p w)"

definition ioutil_ReadFile :: "world \<Rightarrow> filepath \<Rightarrow> (oserr + bytes) \<times> world" where
  "ioutil_ReadFile w fp =
     (case fault w SysReadFile (pathString fp) of
        Some e \<Rightarrow> Inl e
      | None \<Rightarrow>
          (case nodes w (fst fp) of
             None \<Rightarrow> Inl ENOENT
           | Some NonDirectory \<Rightarrow> Inl ENOTDIR
           | Some (Directory m es) \<Rightarrow>
               (case find (\<lambda>f. fiName f = snd fp) es of
                  None \<Rightarrow> Inl ENOENT
                | Some f \<Rightarrow> if fiIsDir f then Inl EISDIR else Inr (fiData f))),
      record_call SysReadFile (pathString fp) w)"

text \<open>
  \<^verbatim>\<open>ioutil.WriteFile\<close>: a file that exists is truncated and keeps its mode, a new
  file gets the requested permission bits without those of the mask.
\<close>

definition ioutil_WriteFile ::
  "world \<Rightarrow> filepath \<Rightarrow> bytes \<Rightarrow> 32 word \<Rightarrow> oserr option \<times> world" where
  "ioutil_WriteFile w fp data perm =
     (case fault w SysWriteFile (pathString fp) of
        Some e \<Rightarrow> (Some e, record_call SysWriteFile (pathString fp) w)
      | None \<Rightarrow>
          (case nodes w (fst fp) of
             None \<Rightarrow> (Some ENOENT, record_call SysWriteFile (pathString fp) w)
           | Some NonDirectory \<Rightarrow> (Some ENOTDIR, record_call SysWriteFile (pathString fp) w)
           | Some (Directory m es) \<Rightarrow>
               (case find (\<lambda>f. fiName f = snd fp) es of
                  Some f \<Rightarrow>
                    if fiIsDir f then (Some EISDIR, record_call SysWriteFile (pathString fp) w)
                    else (None, record_call SysWriteFile (pathString fp)
                      (w\<lparr>nodes := (nodes w)(fst fp \<mapsto> Directory m
                          (map (\<lambda>g. if fiName g = snd fp
                                     then g\<lparr>fiSize := length data, fiData := data\<rparr> else g) es))\<rparr>))
                | None \<Rightarrow>
                    (None, record_call SysWriteFile (pathString fp)
                      (w\<lparr>nodes := (nodes w)(fst fp \<mapsto> Directory m
                          (es @ [\<lparr>fiName = snd fp, fiIsDir = False, fiSize = length data,
                                  fiMode = perm AND NOT (umask w), fiData = data\<rparr>]))\<rparr>)))))"


section \<open>The file based key store\<close>

text \<open>
  The struct \<^verbatim>\<open>fileBasedKeyStore\<close>. Its mutex is held only inside \<^verbatim>\<open>Init\<close> and the
  model is sequential, so the mutex has no counterpart here; neither have the calls
  of the logger. The zero value of the struct is the store before \<^verbatim>\<open>Init\<close>.
\<close>

record fileBasedKeyStore =
  path :: string
  readOnly :: bool
  isOpen :: bool
  pwd :: "bytes option"

definition zeroKeyStore :: fileBasedKeyStore where
  "zeroKeyStore = \<lparr>path = [], readOnly = False, isOpen = False, pwd = None\<rparr>"

definition dirExists :: "world \<Rightarrow> string \<Rightarrow> (bool \<times> oserr option) \<times> world" where
  "dirExists w p =
     (case os_Stat w p of
        (None, w1) \<Rightarrow> ((True, None), w1)
      | (Some err, w1) \<Rightarrow>
          if os_IsNotExist err then ((False, None), w1) else ((False, Some err), w1))"

definition dirEmpty :: "world \<Rightarrow> string \<Rightarrow> (bool \<times> oserr option) \<times> world" where
  "dirEmpty w p =
     (case os_Open w p of
        (Some err, w1) \<Rightarrow> ((False, Some err), w1)
      | (None, w1) \<Rightarrow>
          (case file_Readdir w1 p 1 of
             (Inl err, w2) \<Rightarrow> if err = EOF then ((True, None), w2) else ((False, Some err), w2)
           | (Inr fs, w2) \<Rightarrow> ((False, None), w2)))"

text \<open>
  The modes of the source are octal: \<^verbatim>\<open>0755\<close> is \<open>0x1ED\<close> (\<open>rwxr-xr-x\<close>) and
  \<^verbatim>\<open>0600\<close> is \<open>0x180\<close> (\<open>rw-------\<close>).
\<close>

definition createKeyStore :: "fileBasedKeyStore \<Rightarrow> world \<Rightarrow> error option \<times> world" where
  "createKeyStore ks w =
     (case os_MkdirAll w (path ks) 0x1ED of
        (Some err, w1) \<Rightarrow> (Some (OsError err), w1)
      | (None, w1) \<Rightarrow> (None, w1))"

definition openKeyStore :: "fileBasedKeyStore \<Rightarrow> error option \<times> fileBasedKeyStore" where
  "openKeyStore ks = (if isOpen ks then (None, ks) else (None, ks\<lparr>isOpen := True\<rparr>))"

definition getPathForAlias :: "fileBasedKeyStore \<Rightarrow> string \<Rightarrow> string \<Rightarrow> filepath" where
  "getPathForAlias ks alias suffix = filepath_Join (path ks) (alias @ ''_'' @ suffix)"

text \<open>\<^verbatim>\<open>make([]byte, len(pwd))\<close> followed by \<^verbatim>\<open>copy\<close>: never nil, also for a nil password.\<close>

definition clone :: "bytes option \<Rightarrow> bytes" where
  "clone p = (case p of None \<Rightarrow> [] | Some b \<Rightarrow> take (length b) b)"

definition Init ::
  "fileBasedKeyStore \<Rightarrow> bytes option \<Rightarrow> string \<Rightarrow> bool \<Rightarrow> world
     \<Rightarrow> error option \<times> fileBasedKeyStore \<times> world" where
  "Init ks pwd0 path0 readOnly0 w =
     (if length path0 = 0 then (Some PathCannotBeEmpty, ks, w)
      else if isOpen ks then (Some KeystoreAlreadyInitialized, ks, w)
      else
        let ks1 = ks\<lparr>path := path0, pwd := Some (clone pwd0), readOnly := readOnly0\<rparr> in
        (case dirExists w path0 of
           ((exists0, Some err), w1) \<Rightarrow> (Some (OsError err), ks1, w1)
         | ((exists0, None), w1) \<Rightarrow>
             if \<not> exists0 then
               (case createKeyStore ks1 w1 of
                  (Some err, w2) \<Rightarrow> (Some err, ks1, w2)
                | (None, w2) \<Rightarrow> (fst (openKeyStore ks1), snd (openKeyStore ks1), w2))
             else
               (case dirEmpty w1 path0 of
                  ((empty0, Some err), w2) \<Rightarrow> (Some (OsError err), ks1, w2)
                | ((empty0, None), w2) \<Rightarrow>
                    if empty0 then
                      (case createKeyStore ks1 w2 of
                         (Some err, w3) \<Rightarrow> (Some err, ks1, w3)
                       | (None, w3) \<Rightarrow> (fst (openKeyStore ks1), snd (openKeyStore ks1), w3))
                    else (fst (openKeyStore ks1), snd (openKeyStore ks1), w2))))"

definition NewFileBasedKeyStore ::
  "bytes option \<Rightarrow> string \<Rightarrow> bool \<Rightarrow> world \<Rightarrow> error option \<times> fileBasedKeyStore \<times> world" where
  "NewFileBasedKeyStore pwd0 path0 readOnly0 w = Init zeroKeyStore pwd0 path0 readOnly0 w"

definition ReadOnly :: "fileBasedKeyStore \<Rightarrow> bool" where
  "ReadOnly ks = readOnly ks"

subsection \<open>Looking a key up\<close>

text \<open>
  The loop of \<^verbatim>\<open>getSuffix\<close> over the directory listing: the first file whose name
  starts with the alias decides, and the loop is left at it in every case.
\<close>

fun getSuffix_loop :: "string \<Rightarrow> fileInfo list \<Rightarrow> string" where
  "getSuffix_loop alias [] = []"
| "getSuffix_loop alias (f # files) =
     (if HasPrefix (fiName f) alias then
        (if HasSuffix (fiName f) ''sk'' then ''sk''
         else if HasSuffix (fiName f) ''pk'' then ''pk''
         else if HasSuffix (fiName f) ''key'' then ''key''
         else [])
      else getSuffix_loop alias files)"

definition getSuffix :: "fileBasedKeyStore \<Rightarrow> string \<Rightarrow> world \<Rightarrow> string \<times> world" where
  "getSuffix ks alias w =
     (case ioutil_ReadDir w (path ks) of
        ((files, err), w1) \<Rightarrow> (getSuffix_loop alias files, w1))"

definition loadPrivateKey ::
  "collab \<Rightarrow> fileBasedKeyStore \<Rightarrow> string \<Rightarrow> world \<Rightarrow> (error + iface) \<times> world" where
  "loadPrivateKey c ks alias w =
     (case ioutil_ReadFile w (getPathForAlias ks alias ''sk'') of
        (Inl err, w1) \<Rightarrow> (Inl (OsError err), w1)
      | (Inr raw, w1) \<Rightarrow>
          (case PEMtoPrivateKey c raw (pwd ks) of
             Inl err \<Rightarrow> (Inl err, w1)
           | Inr privateKey \<Rightarrow> (Inr privateKey, w1)))"

definition loadPublicKey ::
  "collab \<Rightarrow> fileBasedKeyStore \<Rightarrow> string \<Rightarrow> world \<Rightarrow> (error + iface) \<times> world" where
  "loadPublicKey c ks alias w =
     (case ioutil_ReadFile w (getPathForAlias ks alias ''pk'') of
        (Inl err, w1) \<Rightarrow> (Inl (OsError err), w1)
      | (Inr raw, w1) \<Rightarrow>
          (case PEMtoPublicKey c raw (pwd ks) of
             Inl err \<Rightarrow> (Inl err, w1)
           | Inr privateKey \<Rightarrow> (Inr privateKey, w1)))"

definition loadKey ::
  "collab \<Rightarrow> fileBasedKeyStore \<Rightarrow> string \<Rightarrow> world \<Rightarrow> (error + bytes) \<times> world" where
  "loadKey c ks alias w =
     (case ioutil_ReadFile w (getPathForAlias ks alias ''key'') of
        (Inl err, w1) \<Rightarrow> (Inl (OsError err), w1)
      | (Inr pem, w1) \<Rightarrow>
          (case PEMtoAES c pem (pwd ks) of
             Inl err \<Rightarrow> (Inl err, w1)
           | Inr k \<Rightarrow> (Inr k, w1)))"

definition loadSM4Key ::
  "collab \<Rightarrow> fileBasedKeyStore \<Rightarrow> string \<Rightarrow> world \<Rightarrow> (error + bytes) \<times> world" where
  "loadSM4Key c ks alias w =
     (case ioutil_ReadFile w (getPathForAlias ks alias ''sm4key'') of
        (Inl err, w1) \<Rightarrow> (Inl (OsError err), w1)
      | (Inr pem, w1) \<Rightarrow>
          (case PEMtoAES c pem (pwd ks) of
             Inl err \<Rightarrow> (Inl err, w1)
           | Inr k \<Rightarrow> (Inr k, w1)))"

text \<open>
  The loop of \<^verbatim>\<open>searchKeystoreForSKI\<close> over the directory listing. Every
  \<^verbatim>\<open>continue\<close> of the source is a call on the rest of the list; \<open>None\<close> is the end of
  the loop without a \<^verbatim>\<open>return\<close>.
\<close>

fun searchKeystoreForSKI_loop ::
  "collab \<Rightarrow> fileBasedKeyStore \<Rightarrow> bytes \<Rightarrow> fileInfo list \<Rightarrow> world \<Rightarrow> key option \<times> world" where
  "searchKeystoreForSKI_loop c ks ski [] w = (None, w)"
| "searchKeystoreForSKI_loop c ks ski (f # files) w =
     (if fiIsDir f then searchKeystoreForSKI_loop c ks ski files w
      else if fiSize f > 2 ^ 16 then searchKeystoreForSKI_loop c ks ski files w
      else
        (case ioutil_ReadFile w (filepath_Join (path ks) (fiName f)) of
           (Inl err, w1) \<Rightarrow> searchKeystoreForSKI_loop c ks ski files w1
         | (Inr raw, w1) \<Rightarrow>
             (case PEMtoPrivateKey c raw (pwd ks) of
                Inl err \<Rightarrow> searchKeystoreForSKI_loop c ks ski files w1
              | Inr (IEcdsaPrivateKey kk) \<Rightarrow>
                  if SKI c (EcdsaPrivateKey kk) \<noteq> ski
                  then searchKeystoreForSKI_loop c ks ski files w1
                  else (Some (EcdsaPrivateKey kk), w1)
              | Inr (ISm2PrivateKey kk) \<Rightarrow>
                  if SKI c (Sm2PrivateKey kk) \<noteq> ski
                  then searchKeystoreForSKI_loop c ks ski files w1
                  else (Some (Sm2PrivateKey kk), w1)
              | Inr _ \<Rightarrow> searchKeystoreForSKI_loop c ks ski files w1)))"

definition searchKeystoreForSKI ::
  "collab \<Rightarrow> fileBasedKeyStore \<Rightarrow> bytes \<Rightarrow> world \<Rightarrow> (error + key) \<times> world" where
  "searchKeystoreForSKI c ks ski w =
     (case ioutil_ReadDir w (path ks) of
        ((files, err), w1) \<Rightarrow>
          (case searchKeystoreForSKI_loop c ks ski files w1 of
             (Some k, w2) \<Rightarrow> (Inr k, w2)
           | (None, w2) \<Rightarrow> (Inl (KeyWithSKINotFound ski (path ks)), w2)))"

definition GetKey ::
  "collab \<Rightarrow> fileBasedKeyStore \<Rightarrow> bytes \<Rightarrow> world \<Rightarrow> (error + key) \<times> world" where
  "GetKey c ks ski w =
     (if length ski = 0 then (Inl InvalidSKIZeroLength, w)
      else
        (case getSuffix ks (EncodeToString ski) w of
           (suffix, w1) \<Rightarrow>
             if suffix = ''key'' then
               (case loadKey c ks (EncodeToString ski) w1 of
                  (Inl err, w2) \<Rightarrow> (Inl (FailedLoadingKey ski err), w2)
                | (Inr k, w2) \<Rightarrow> (Inr (AesPrivateKey k False), w2))
             else if suffix = ''sm4key'' then
               (case loadSM4Key c ks (EncodeToString ski) w1 of
                  (Inl err, w2) \<Rightarrow> (Inl (FailedLoadingSm4Key ski err), w2)
                | (Inr k, w2) \<Rightarrow> (Inr (Sm4PrivateKey k False), w2))
             else if suffix = ''sk'' then
               (case loadPrivateKey c ks (EncodeToString ski) w1 of
                  (Inl err, w2) \<Rightarrow> (Inl (FailedLoadingSecretKey ski err), w2)
                | (Inr (IEcdsaPrivateKey k), w2) \<Rightarrow> (Inr (EcdsaPrivateKey k), w2)
                | (Inr (ISm2PrivateKey k), w2) \<Rightarrow> (Inr (Sm2PrivateKey k), w2)
                | (Inr _, w2) \<Rightarrow> (Inl SecretKeyTypeNotRecognized, w2))
             else if suffix = ''pk'' then
               (case loadPublicKey c ks (EncodeToString ski) w1 of
                  (Inl err, w2) \<Rightarrow> (Inl (FailedLoadingPublicKey ski err), w2)
                | (Inr (IEcdsaPublicKey k), w2) \<Rightarrow> (Inr (EcdsaPublicKey k), w2)
                | (Inr (ISm2PublicKey k), w2) \<Rightarrow> (Inr (Sm2PublicKey k), w2)
                | (Inr _, w2) \<Rightarrow> (Inl PublicKeyTypeNotRecognized, w2))
             else searchKeystoreForSKI c ks ski w1))"

subsection \<open>Storing a key\<close>

definition storePrivateKey ::
  "collab \<Rightarrow> fileBasedKeyStore \<Rightarrow> string \<Rightarrow> iface \<Rightarrow> world \<Rightarrow> error option \<times> world" where
  "storePrivateKey c ks alias privateKey w =
     (case PrivateKeyToPEM c privateKey (pwd ks) of
        Inl err \<Rightarrow> (Some err, w)
      | Inr rawKey \<Rightarrow>
          (case ioutil_WriteFile w (getPathForAlias ks alias ''sk'') rawKey 0x180 of
             (Some err, w1) \<Rightarrow> (Some (OsError err), w1)
           | (None, w1) \<Rightarrow> (None, w1)))"

definition storePublicKey ::
  "collab \<Rightarrow> fileBasedKeyStore \<Rightarrow> string \<Rightarrow> iface \<Rightarrow> world \<Rightarrow> error option \<times> world" where
  "storePublicKey c ks alias publicKey w =
     (case PublicKeyToPEM c publicKey (pwd ks) of
        Inl err \<Rightarrow> (Some err, w)
      | Inr rawKey \<Rightarrow>
          (case ioutil_WriteFile w (getPathForAlias ks alias ''pk'') rawKey 0x180 of
             (Some err, w1) \<Rightarrow> (Some (OsError err), w1)
           | (None, w1) \<Rightarrow> (None, w1)))"

definition storeKey ::
  "collab \<Rightarrow> fileBasedKeyStore \<Rightarrow> string \<Rightarrow> bytes \<Rightarrow> world \<Rightarrow> error option \<times> world" where
  "storeKey c ks alias k w =
     (case AEStoEncryptedPEM c k (pwd ks) of
        Inl err \<Rightarrow> (Some err, w)
      | Inr pem \<Rightarrow>
          (case ioutil_WriteFile w (getPathForAlias ks alias ''key'') pem 0x180 of
             (Some err, w1) \<Rightarrow> (Some (OsError err), w1)
           | (None, w1) \<Rightarrow> (None, w1)))"

definition storeSm4Key ::
  "collab \<Rightarrow> fileBasedKeyStore \<Rightarrow> string \<Rightarrow> bytes \<Rightarrow> world \<Rightarrow> error option \<times> world" where
  "storeSm4Key c ks alias k w =
     (let blockType = ''SM4 PRIVATE KEY'' in
      case SM4EncryptPEMBlock c blockType k (pwd ks) of
        Inl err \<Rightarrow> (Some err, w)
      | Inr pem \<Rightarrow>
          (case ioutil_WriteFile w (getPathForAlias ks alias ''sm4key'') pem 0x180 of
             (Some err, w1) \<Rightarrow> (Some (OsError err), w1)
           | (None, w1) \<Rightarrow> (None, w1)))"

text \<open>\<^verbatim>\<open>StoreKey\<close>; the argument \<open>None\<close> is the nil interface.\<close>

definition StoreKey ::
  "collab \<Rightarrow> fileBasedKeyStore \<Rightarrow> key option \<Rightarrow> world \<Rightarrow> error option \<times> world" where
  "StoreKey c ks k w =
     (if readOnly ks then (Some ReadOnlyKeyStore, w)
      else
        (case k of
           None \<Rightarrow> (Some InvalidKeyNil, w)
         | Some (EcdsaPrivateKey privKey) \<Rightarrow>
             (case storePrivateKey c ks (EncodeToString (SKI c (EcdsaPrivateKey privKey)))
                     (IEcdsaPrivateKey privKey) w of
                (Some err, w1) \<Rightarrow> (Some (FailedStoringECDSAPrivateKey err), w1)
              | (None, w1) \<Rightarrow> (None, w1))
         | Some (Sm2PrivateKey privKey) \<Rightarrow>
             (case storePrivateKey c ks (EncodeToString (SKI c (Sm2PrivateKey privKey)))
                     (ISm2PrivateKey privKey) w of
                (Some err, w1) \<Rightarrow> (Some (FailedStoringSM2PrivateKey err), w1)
              | (None, w1) \<Rightarrow> (None, w1))
         | Some (EcdsaPublicKey pubKey) \<Rightarrow>
             (case storePublicKey c ks (EncodeToString (SKI c (EcdsaPublicKey pubKey)))
                     (IEcdsaPublicKey pubKey) w of
                (Some err, w1) \<Rightarrow> (Some (FailedStoringECDSAPublicKey err), w1)
              | (None, w1) \<Rightarrow> (None, w1))
         | Some (Sm2PublicKey pubKey) \<Rightarrow>
             (case storePublicKey c ks (EncodeToString (SKI c (Sm2PublicKey pubKey)))
                     (ISm2PublicKey pubKey) w of
                (Some err, w1) \<Rightarrow> (Some (FailedStoringSM2PublicKey err), w1)
              | (None, w1) \<Rightarrow> (None, w1))
         | Some (AesPrivateKey privKey exportable) \<Rightarrow>
             (case storeKey c ks (EncodeToString (SKI c (AesPrivateKey privKey exportable)))
                     privKey w of
                (Some err, w1) \<Rightarrow> (Some (FailedStoringAESKey err), w1)
              | (None, w1) \<Rightarrow> (None, w1))
         | Some (Sm4PrivateKey privKey exportable) \<Rightarrow>
             (case storeSm4Key c ks (EncodeToString (SKI c (Sm4PrivateKey privKey exportable)))
                     privKey w of
                (Some err, w1) \<Rightarrow> (Some (FailedStoringSM4Key err), w1)
              | (None, w1) \<Rightarrow> (None, w1))
         | Some (ForeignKey t) \<Rightarrow> (Some (KeyTypeNotRecognized (ForeignKey t)), w)))"


section \<open>The fallback scan, as the specification words it\<close>

text \<open>
  The specification describes the fallback of \<^verbatim>\<open>GetKey\<close> so: read every file of the
  directory up to the size ceiling of 64 KiB, decode each as a private key,
  compute the identifier of the decoded key, and return the first key whose
  identifier is the requested one; fail with a not-found error that carries the
  requested identifier otherwise. The definitions of this section follow these
  words; the theorems below compare them with the loop of the source.

  \<open>scanEligible\<close> is a file within the ceiling, \<open>decodePrivateKey\<close> what reading and
  decoding it gives, \<open>scanMatch\<close> a file that decodes to a key with the requested
  identifier, \<open>filesRead\<close> the files up to the first hit, and \<open>readEvent\<close> the entry
  that reading a file leaves in the log.
\<close>

definition scanEligible :: "fileInfo \<Rightarrow> bool" where
  "scanEligible f = (\<not> fiIsDir f \<and> fiSize f \<le> 65536)"

definition decodePrivateKey ::
  "collab \<Rightarrow> fileBasedKeyStore \<Rightarrow> world \<Rightarrow> fileInfo \<Rightarrow> key option" where
  "decodePrivateKey c ks w f =
     (case fst (ioutil_ReadFile w (filepath_Join (path ks) (fiName f))) of
        Inl err \<Rightarrow> None
      | Inr raw \<Rightarrow>
          (case PEMtoPrivateKey c raw (pwd ks) of
             Inr (IEcdsaPrivateKey kk) \<Rightarrow> Some (EcdsaPrivateKey kk)
           | Inr (ISm2PrivateKey kk) \<Rightarrow> Some (Sm2PrivateKey kk)
           | _ \<Rightarrow> None))"

definition scanMatch ::
  "collab \<Rightarrow> fileBasedKeyStore \<Rightarrow> bytes \<Rightarrow> world \<Rightarrow> fileInfo \<Rightarrow> bool" where
  "scanMatch c ks ski w f =
     (case decodePrivateKey c ks w f of Some k \<Rightarrow> SKI c k = ski | None \<Rightarrow> False)"

fun filesRead :: "(fileInfo \<Rightarrow> bool) \<Rightarrow> fileInfo list \<Rightarrow> fileInfo list" where
  "filesRead hit [] = []"
| "filesRead hit (f # fs) = (if hit f then [f] else f # filesRead hit fs)"

definition readEvent :: "fileBasedKeyStore \<Rightarrow> fileInfo \<Rightarrow> syscall \<times> string" where
  "readEvent ks f = (SysReadFile, pathString (filepath_Join (path ks) (fiName f)))"

definition fallbackScan ::
  "collab \<Rightarrow> fileBasedKeyStore \<Rightarrow> bytes \<Rightarrow> fileInfo list \<Rightarrow> world \<Rightarrow> error + key" where
  "fallbackScan c ks ski files w =
     (case find (scanMatch c ks ski w) (filter scanEligible files) of
        None \<Rightarrow> Inl (KeyWithSKINotFound ski (path ks))
      | Some f \<Rightarrow>
          (case decodePrivateKey c ks w f of
             None \<Rightarrow> Inl (KeyWithSKINotFound ski (path ks))
           | Some k \<Rightarrow> Inr k))"

section \<open>Concrete inputs\<close>

text \<open>
  The inputs at which the theorems below are instantiated: an environment without
  failing system calls, a directory \<open>ks\<close> that holds one file, and a test double of
  the collaborators that decodes the one-byte record \<open>[1]\<close> to a private key.
\<close>

definition noFault :: "syscall \<Rightarrow> string \<Rightarrow> oserr option" where
  "noFault sc p = None"

definition examplePrivateKey :: ecdsa_PrivateKey where
  "examplePrivateKey = ECDSA_PrivateKey (ECDSA_PublicKey ''P-256'' 1 2) 3"

definition testSKI :: "key \<Rightarrow> bytes" where
  "testSKI k =
     (case k of
        EcdsaPrivateKey x \<Rightarrow> [0xab]
      | Sm2PrivateKey x \<Rightarrow> [0xcd]
      | EcdsaPublicKey x \<Rightarrow> [0xab]
      | Sm2PublicKey x \<Rightarrow> [0xcd]
      | AesPrivateKey b e \<Rightarrow> take 1 b
      | Sm4PrivateKey b e \<Rightarrow> take 1 b
      | ForeignKey t \<Rightarrow> [])"

definition testCollab :: collab where
  "testCollab =
     \<lparr>parsePKIXSM2PublicKey = (\<lambda>der. Inl (CollaboratorError ''asn1'')),
      parsePKCS8SM2PrivateKey = (\<lambda>der. Inl (CollaboratorError ''asn1'')),
      SKI = testSKI,
      PrivateKeyToPEM = (\<lambda>k p. Inr [1]),
      PEMtoPrivateKey = (\<lambda>raw p.
         if raw = [1] then Inr (IEcdsaPrivateKey examplePrivateKey)
         else Inl (CollaboratorError ''pem'')),
      PublicKeyToPEM = (\<lambda>k p. Inr [2]),
      PEMtoPublicKey = (\<lambda>raw p. Inl (CollaboratorError ''pem'')),
      AEStoEncryptedPEM = (\<lambda>k p. Inr k),
      PEMtoAES = (\<lambda>pem p. Inr pem),
      SM4EncryptPEMBlock = (\<lambda>t k p. Inr k)\<rparr>"

definition exampleEntry :: fileInfo where
  "exampleEntry =
     \<lparr>fiName = ''ab_pk'', fiIsDir = False, fiSize = 1, fiMode = 0x180, fiData = [7]\<rparr>"

definition exampleWorld :: world where
  "exampleWorld =
     \<lparr>nodes = [''ks'' \<mapsto> Directory 0x1ED [exampleEntry]], umask = 0x12,
      fault = noFault, log = []\<rparr>"

definition readOnlyStore :: fileBasedKeyStore where
  "readOnlyStore = \<lparr>path = ''ks'', readOnly = True, isOpen = True, pwd = Some []\<rparr>"

definition openStore :: fileBasedKeyStore where
  "openStore = \<lparr>path = ''ks'', readOnly = False, isOpen = True, pwd = Some []\<rparr>"

definition openedWorld :: world where
  "openedWorld =
     exampleWorld\<lparr>log := [(SysStat, ''ks''), (SysOpen, ''ks''), (SysReaddir, ''ks'')]\<rparr>"

definition emptyWorld :: world where
  "emptyWorld = \<lparr>nodes = Map.empty, umask = 0x12, fault = noFault, log = []\<rparr>"

definition bigData :: bytes where
  "bigData = replicate 65537 0"

definition bigEntry :: fileInfo where
  "bigEntry =
     \<lparr>fiName = ''big.pem'', fiIsDir = False, fiSize = 65537, fiMode = 0x180,
      fiData = bigData\<rparr>"

definition externalEntry :: fileInfo where
  "externalEntry =
     \<lparr>fiName = ''external.pem'', fiIsDir = False, fiSize = 1, fiMode = 0x180, fiData = [1]\<rparr>"

definition scanWorld :: world where
  "scanWorld =
     \<lparr>nodes = [''ks'' \<mapsto> Directory 0x1ED [externalEntry, bigEntry]], umask = 0x12,
      fault = noFault, log = []\<rparr>"




definition shortEntry :: fileInfo where
  "shortEntry =
     \<lparr>fiName = ''ab_pk'', fiIsDir = False, fiSize = 1, fiMode = 0x180, fiData = [2]\<rparr>"

definition longEntry :: fileInfo where
  "longEntry =
     \<lparr>fiName = ''ab12_sk'', fiIsDir = False, fiSize = 1, fiMode = 0x180, fiData = [1]\<rparr>"

definition prefixWorld :: world where
  "prefixWorld =
     \<lparr>nodes = [''ks'' \<mapsto> Directory 0x1ED [shortEntry, longEntry]], umask = 0x12,
      fault = noFault, log = []\<rparr>"

definition freshWorld :: world where
  "freshWorld =
     \<lparr>nodes = [''ks'' \<mapsto> Directory 0x1ED []], umask = 0x12, fault = noFault, log = []\<rparr>"

definition sm4Raw :: bytes where
  "sm4Raw = [0x0a, 1, 2, 3, 4, 5, 6, 7, 8, 9, 10, 11, 12, 13, 14, 15]"

definition sm4Entry :: fileInfo where
  "sm4Entry =
     \<lparr>fiName = ''0a_sm4key'', fiIsDir = False, fiSize = 16, fiMode = 0x180, fiData = sm4Raw\<rparr>"

definition sm4World :: world where
  "sm4World =
     \<lparr>nodes = [''ks'' \<mapsto> Directory 0x1ED [sm4Entry]], umask = 0x12, fault = noFault,
      log = [(SysWriteFile, ''ks/0a_sm4key'')]\<rparr>"

section \<open>Properties of the importers\<close>

text \<open>
  C2. The SM4 importer fails for raw material that is not a byte slice, for a nil
  byte slice and for a byte slice whose length is not 16; for a byte slice of
  length 16 it returns the SM4 key that holds exactly these bytes.
\<close>

theorem sm4_KeyImport_length_invariant:
  "((\<forall>s. raw \<noteq> IBytes s) \<longrightarrow>
      sm4ImportKeyOptsKeyImporter_KeyImport raw opts = Inl ExpectedByteArray) \<and>
   sm4ImportKeyOptsKeyImporter_KeyImport (IBytes None) opts = Inl RawMustNotBeNil \<and>
   (length b \<noteq> 16 \<longrightarrow>
      sm4ImportKeyOptsKeyImporter_KeyImport (IBytes (Some b)) opts
        = Inl (InvalidKeyLength (length b))) \<and>
   (length b' = 16 \<longrightarrow>
      sm4ImportKeyOptsKeyImporter_KeyImport (IBytes (Some b')) opts
        = Inr (Sm4PrivateKey b' False))"
  by (cases raw) (simp_all add: sm4ImportKeyOptsKeyImporter_KeyImport_def)

theorem sm4_KeyImport_length_invariant_witness:
  "(\<forall>s. IOther ''string'' \<noteq> IBytes s) \<and>
   sm4ImportKeyOptsKeyImporter_KeyImport (IOther ''string'') None = Inl ExpectedByteArray \<and>
   length [1, 2, 3 :: byte] \<noteq> 16 \<and>
   sm4ImportKeyOptsKeyImporter_KeyImport (IBytes (Some [1, 2, 3])) None
     = Inl (InvalidKeyLength 3) \<and>
   length (replicate 16 (0 :: byte)) = 16 \<and>
   sm4ImportKeyOptsKeyImporter_KeyImport (IBytes (Some (replicate 16 0))) None
     = Inr (Sm4PrivateKey (replicate 16 0) False)"
  using sm4_KeyImport_length_invariant [of "IOther ''string''" None "[1, 2, 3]" "replicate 16 0"]
  by simp



section \<open>Properties of the key store\<close>

subsection \<open>Initialisation\<close>

text \<open>What a call of \<^verbatim>\<open>Init\<close> that returns no error has done to the store.\<close>

lemma Init_success:
  "Init ks pw p ro w = (None, ks', w') \<Longrightarrow>
     ks' = ks\<lparr>path := p, pwd := Some (clone pw), readOnly := ro, isOpen := True\<rparr>
     \<and> \<not> isOpen ks \<and> p \<noteq> []"
  by (auto simp: Init_def Let_def openKeyStore_def createKeyStore_def
      split: if_splits prod.splits option.splits)

lemma Init_exampleWorld:
  "Init zeroKeyStore None ''ks'' True exampleWorld
     = (None, readOnlyStore,
        exampleWorld\<lparr>log := [(SysStat, ''ks''), (SysOpen, ''ks''), (SysReaddir, ''ks'')]\<rparr>)"
  by (simp add: Init_def zeroKeyStore_def exampleWorld_def noFault_def dirExists_def
      dirEmpty_def os_Stat_def os_Open_def file_Readdir_def record_call_def openKeyStore_def
      clone_def exampleEntry_def readOnlyStore_def)

lemma Init_exampleWorld_rw:
  "Init zeroKeyStore None ''ks'' False exampleWorld = (None, openStore, openedWorld)"
  by (simp add: Init_def zeroKeyStore_def exampleWorld_def noFault_def dirExists_def
      dirEmpty_def os_Stat_def os_Open_def file_Readdir_def record_call_def openKeyStore_def
      clone_def exampleEntry_def openStore_def openedWorld_def)

text \<open>The store is open after a call of \<^verbatim>\<open>Init\<close> iff it was before or the call succeeded.\<close>

lemma Init_isOpen:
  "isOpen (fst (snd (Init ks pw p ro w))) = (isOpen ks \<or> fst (Init ks pw p ro w) = None)"
  by (auto simp: Init_def Let_def openKeyStore_def createKeyStore_def
      split: if_splits prod.splits option.splits)

text \<open>
  C6, as the claim states it, fails: a second \<^verbatim>\<open>Init\<close> with the empty path returns
  the error of the path check, which comes before the test of \<^verbatim>\<open>isOpen\<close>, and not the
  already-initialised error.
\<close>

theorem Init_twice_counterexample:
  "Init zeroKeyStore None ''ks'' False exampleWorld = (None, openStore, openedWorld) \<and>
   isOpen openStore \<and>
   Init openStore None [] False openedWorld
     = (Some PathCannotBeEmpty, openStore, openedWorld) \<and>
   PathCannotBeEmpty \<noteq> KeystoreAlreadyInitialized"
  using Init_exampleWorld_rw by (simp add: Init_def openStore_def)

text \<open>
  C6, amended. A successful \<^verbatim>\<open>Init\<close> leaves the store open, and a store is open
  after a call of \<^verbatim>\<open>Init\<close> only if it was open before or the call succeeded. Every
  call of \<^verbatim>\<open>Init\<close> on an open store fails and changes neither the store nor the
  world: with the already-initialised error when the path is not empty, with the
  error of the path check when it is.
\<close>

theorem Init_twice:
  "(Init ks pw p ro w = (None, ks', w') \<longrightarrow> isOpen ks') \<and>
   (isOpen ks' \<longrightarrow>
      Init ks' pw' p' ro' w'' =
        (Some (if length p' = 0 then PathCannotBeEmpty else KeystoreAlreadyInitialized),
         ks', w'')) \<and>
   isOpen (fst (snd (Init ks pw p ro w))) = (isOpen ks \<or> fst (Init ks pw p ro w) = None)"
  using Init_success [of ks pw p ro w ks' w'] Init_isOpen [of ks pw p ro w]
  by (auto simp: Init_def)

theorem Init_twice_witness:
  "Init zeroKeyStore None ''ks'' False exampleWorld = (None, openStore, openedWorld) \<and>
   isOpen openStore \<and>
   Init openStore (Some [1]) ''other'' True openedWorld
     = (Some KeystoreAlreadyInitialized, openStore, openedWorld) \<and>
   Init openStore (Some [1]) [] True openedWorld
     = (Some PathCannotBeEmpty, openStore, openedWorld)"
  using Init_twice [where ks = zeroKeyStore and pw = None and p = "''ks''" and ro = False
      and w = exampleWorld and ks' = openStore and w' = openedWorld
      and pw' = "Some [1]" and p' = "''other''" and ro' = True and w'' = openedWorld]
    Init_twice [where ks = zeroKeyStore and pw = None and p = "''ks''" and ro = False
      and w = exampleWorld and ks' = openStore and w' = openedWorld
      and pw' = "Some [1]" and p' = "[]" and ro' = True and w'' = openedWorld]
    Init_exampleWorld_rw
  by (simp add: openStore_def)

text \<open>
  C7. \<^verbatim>\<open>Init\<close> with a non-empty path that names a directory with at least one entry
  leaves every node of the file system as it is, whatever the system calls answer;
  when the calls it makes on the directory (stat, open, readdir) do not fail, the
  store is open afterwards. \<^verbatim>\<open>Init\<close> with the empty path fails.
\<close>

theorem Init_existing_directory:
  "p \<noteq> [] \<and> nodes w p = Some (Directory m es) \<and> es \<noteq> [] \<longrightarrow>
     nodes (snd (snd (Init ks pw p ro w))) = nodes w \<and>
     (fault w SysStat p = None \<and> fault w SysOpen p = None \<and> fault w SysReaddir p = None
        \<longrightarrow> isOpen (fst (snd (Init ks pw p ro w)))) \<and>
     Init ks pw [] ro w = (Some PathCannotBeEmpty, ks, w)"
  by (auto simp: Init_def Let_def openKeyStore_def createKeyStore_def dirExists_def dirEmpty_def
      os_Stat_def os_Open_def file_Readdir_def os_MkdirAll_def record_call_def
      split: if_splits prod.splits option.splits sum.splits)

theorem Init_existing_directory_witness:
  "''ks'' \<noteq> [] \<and> nodes exampleWorld ''ks'' = Some (Directory 0x1ED [exampleEntry]) \<and>
   [exampleEntry] \<noteq> [] \<and>
   fault exampleWorld SysStat ''ks'' = None \<and> fault exampleWorld SysOpen ''ks'' = None \<and>
   fault exampleWorld SysReaddir ''ks'' = None \<and>
   nodes (snd (snd (Init zeroKeyStore None ''ks'' False exampleWorld))) = nodes exampleWorld \<and>
   isOpen (fst (snd (Init zeroKeyStore None ''ks'' False exampleWorld))) \<and>
   Init zeroKeyStore None [] False exampleWorld
     = (Some PathCannotBeEmpty, zeroKeyStore, exampleWorld)"
  using Init_existing_directory [where p = "''ks''" and w = exampleWorld and m = "0x1ED"
      and es = "[exampleEntry]" and ks = zeroKeyStore and pw = None and ro = False]
  by (simp add: exampleWorld_def noFault_def)

text \<open>
  C9, as the claim states it, fails: with the usual mask \<open>022\<close> (\<open>0x12\<close>) the
  directory that \<^verbatim>\<open>Init\<close> creates has the mode \<^verbatim>\<open>0755\<close>, and its bits for group and
  others (\<^verbatim>\<open>077\<close>, \<open>0x3F\<close>) are \<^verbatim>\<open>055\<close>: both may read and search the directory.
\<close>

theorem Init_missing_directory_counterexample:
  "nodes emptyWorld ''ks'' = None \<and>
   Init zeroKeyStore None ''ks'' False emptyWorld
     = (None, openStore,
        emptyWorld\<lparr>nodes := [''ks'' \<mapsto> Directory 0x1ED []],
                   log := [(SysStat, ''ks''), (SysMkdirAll, ''ks'')]\<rparr>) \<and>
   (0x1ED :: 32 word) AND 0x3F = 0x2D \<and> (0x2D :: 32 word) \<noteq> 0"
  by (simp add: Init_def Let_def openKeyStore_def createKeyStore_def dirExists_def
      os_Stat_def os_MkdirAll_def record_call_def os_IsNotExist_def
      emptyWorld_def zeroKeyStore_def noFault_def openStore_def clone_def)

text \<open>
  C9, amended. When the path is not empty, the store is not open, no node exists at
  the path and the calls stat and mkdir do not fail, \<^verbatim>\<open>Init\<close> succeeds, creates an
  empty directory there whose mode is \<^verbatim>\<open>0755\<close> (all permissions for the owner, read
  and execute for group and others) without the bits of the mask, changes no
  other node, and leaves the store open.
\<close>

theorem Init_missing_directory:
  "p \<noteq> [] \<and> \<not> isOpen ks \<and> nodes w p = None \<and>
   fault w SysStat p = None \<and> fault w SysMkdirAll p = None \<longrightarrow>
     fst (Init ks pw p ro w) = None \<and>
     isOpen (fst (snd (Init ks pw p ro w))) \<and>
     nodes (snd (snd (Init ks pw p ro w)))
           = (nodes w)(p \<mapsto> Directory (0x1ED AND NOT (umask w)) [])"
  by (auto simp: Init_def Let_def openKeyStore_def createKeyStore_def dirExists_def
      os_Stat_def os_MkdirAll_def record_call_def os_IsNotExist_def
      split: if_splits prod.splits option.splits sum.splits)

theorem Init_missing_directory_witness:
  "''ks'' \<noteq> [] \<and> \<not> isOpen zeroKeyStore \<and> nodes emptyWorld ''ks'' = None \<and>
   fault emptyWorld SysStat ''ks'' = None \<and> fault emptyWorld SysMkdirAll ''ks'' = None \<and>
   fst (Init zeroKeyStore None ''ks'' False emptyWorld) = None \<and>
   isOpen (fst (snd (Init zeroKeyStore None ''ks'' False emptyWorld))) \<and>
   nodes (snd (snd (Init zeroKeyStore None ''ks'' False emptyWorld)))
     = [''ks'' \<mapsto> Directory 0x1ED []]"
  using Init_missing_directory [where p = "''ks''" and w = emptyWorld
      and ks = zeroKeyStore and pw = None and ro = False]
  by (simp add: emptyWorld_def noFault_def zeroKeyStore_def)

subsection \<open>Read-only stores\<close>

text \<open>
  C3. On a store that \<^verbatim>\<open>Init\<close> has initialised with the read-only flag set, every
  call of \<^verbatim>\<open>StoreKey\<close> returns the read-only error and leaves the file system as
  it is, whatever the key: nil, a key of a known variant or any other key. The key
  is not looked at before.
\<close>

theorem StoreKey_read_only:
  "Init ks pw p True w = (None, ks', w') \<Longrightarrow>
     StoreKey c ks' k w'' = (Some ReadOnlyKeyStore, w'')"
  by (drule Init_success) (simp add: StoreKey_def)

theorem StoreKey_read_only_witness:
  "Init zeroKeyStore None ''ks'' True exampleWorld
     = (None, readOnlyStore,
        exampleWorld\<lparr>log := [(SysStat, ''ks''), (SysOpen, ''ks''), (SysReaddir, ''ks'')]\<rparr>) \<and>
   StoreKey testCollab readOnlyStore None exampleWorld = (Some ReadOnlyKeyStore, exampleWorld) \<and>
   StoreKey testCollab readOnlyStore (Some (Sm4PrivateKey sm4Raw False)) exampleWorld
     = (Some ReadOnlyKeyStore, exampleWorld) \<and>
   StoreKey testCollab readOnlyStore (Some (ForeignKey ''rsa'')) exampleWorld
     = (Some ReadOnlyKeyStore, exampleWorld)"
  using StoreKey_read_only [OF Init_exampleWorld, of testCollab None exampleWorld]
    StoreKey_read_only [OF Init_exampleWorld, of testCollab
      "Some (Sm4PrivateKey sm4Raw False)" exampleWorld]
    StoreKey_read_only [OF Init_exampleWorld, of testCollab
      "Some (ForeignKey ''rsa'')" exampleWorld]
    Init_exampleWorld
  by simp

subsection \<open>Looking a key up\<close>

text \<open>The loop of the fallback scan and the scan of the specification.\<close>

lemma ioutil_ReadFile_snd:
  "snd (ioutil_ReadFile w fp) = w\<lparr>log := log w @ [(SysReadFile, pathString fp)]\<rparr>"
  by (simp add: ioutil_ReadFile_def record_call_def)

lemma ioutil_ReadFile_log:
  "fst (ioutil_ReadFile (w\<lparr>log := l\<rparr>) fp) = fst (ioutil_ReadFile w fp)"
  by (simp add: ioutil_ReadFile_def split: option.splits)

lemma decodePrivateKey_log:
  "decodePrivateKey c ks (w\<lparr>log := l\<rparr>) = decodePrivateKey c ks w"
  by (rule ext) (simp add: decodePrivateKey_def ioutil_ReadFile_log)

lemma scanMatch_log:
  "scanMatch c ks ski (w\<lparr>log := l\<rparr>) = scanMatch c ks ski w"
  by (rule ext) (simp add: scanMatch_def decodePrivateKey_log)

lemma searchKeystoreForSKI_loop_step:
  "searchKeystoreForSKI_loop c ks ski (f # files) w =
     (if \<not> scanEligible f then searchKeystoreForSKI_loop c ks ski files w
      else if scanMatch c ks ski w f
        then (decodePrivateKey c ks w f, w\<lparr>log := log w @ [readEvent ks f]\<rparr>)
        else searchKeystoreForSKI_loop c ks ski files (w\<lparr>log := log w @ [readEvent ks f]\<rparr>))"
proof -
  obtain r w1 where rw: "ioutil_ReadFile w (filepath_Join (path ks) (fiName f)) = (r, w1)"
    by (cases "ioutil_ReadFile w (filepath_Join (path ks) (fiName f))")
  with ioutil_ReadFile_snd [of w "filepath_Join (path ks) (fiName f)"]
  have w1: "w1 = w\<lparr>log := log w @ [readEvent ks f]\<rparr>"
    by (simp add: readEvent_def)
  from rw have r: "fst (ioutil_ReadFile w (filepath_Join (path ks) (fiName f))) = r"
    by simp
  show ?thesis
    using rw
    by (simp add: scanEligible_def scanMatch_def decodePrivateKey_def r w1 [symmetric] not_le
        split: sum.splits iface.splits)
qed

lemma searchKeystoreForSKI_loop_spec:
  "searchKeystoreForSKI_loop c ks ski files w =
     (Option.bind (find (scanMatch c ks ski w) (filter scanEligible files))
        (decodePrivateKey c ks w),
      w\<lparr>log := log w @ map (readEvent ks)
        (filesRead (scanMatch c ks ski w) (filter scanEligible files))\<rparr>)"
proof (induction files arbitrary: w)
  case Nil
  show ?case by simp
next
  case (Cons f files)
  show ?case
    unfolding searchKeystoreForSKI_loop_step
    by (simp add: Cons.IH scanMatch_log decodePrivateKey_log)
qed


lemma filesRead_subset: "set (filesRead hit fs) \<subseteq> set fs"
  by (induction fs) auto

lemma fallbackScan_Inr:
  "fallbackScan c ks ski files w = Inr k \<Longrightarrow>
     SKI c k = ski \<and> ((\<exists>kk. k = EcdsaPrivateKey kk) \<or> (\<exists>kk. k = Sm2PrivateKey kk))"
  by (auto simp: fallbackScan_def scanMatch_def decodePrivateKey_def find_Some_iff
      split: option.splits sum.splits iface.splits)

lemma fallbackScan_Inl:
  "fallbackScan c ks ski files w = Inl e \<Longrightarrow> e = KeyWithSKINotFound ski (path ks)"
  by (auto simp: fallbackScan_def split: option.splits)

lemma fallbackScan_no_match:
  "\<forall>f \<in> set files. scanEligible f \<longrightarrow> \<not> scanMatch c ks ski w f \<Longrightarrow>
     fallbackScan c ks ski files w = Inl (KeyWithSKINotFound ski (path ks))"
proof -
  assume "\<forall>f \<in> set files. scanEligible f \<longrightarrow> \<not> scanMatch c ks ski w f"
  then have "find (scanMatch c ks ski w) (filter scanEligible files) = None"
    by (auto simp: find_None_iff)
  then show ?thesis
    by (simp add: fallbackScan_def)
qed

lemma searchKeystoreForSKI_spec:
  assumes "ioutil_ReadDir w (path ks) = ((files, err), w2)"
  shows "searchKeystoreForSKI c ks ski w =
     (fallbackScan c ks ski files w2,
      w2\<lparr>log := log w2 @ map (readEvent ks)
        (filesRead (scanMatch c ks ski w2) (filter scanEligible files))\<rparr>)"
proof (cases "find (scanMatch c ks ski w2) (filter scanEligible files)")
  case None
  then show ?thesis
    using assms
    by (simp add: searchKeystoreForSKI_def searchKeystoreForSKI_loop_spec fallbackScan_def)
next
  case (Some f)
  then have "scanMatch c ks ski w2 f"
    by (auto simp: find_Some_iff)
  then obtain k where "decodePrivateKey c ks w2 f = Some k"
    by (auto simp: scanMatch_def split: option.splits)
  with Some show ?thesis
    using assms
    by (simp add: searchKeystoreForSKI_def searchKeystoreForSKI_loop_spec fallbackScan_def)
qed

text \<open>
  C4. When the identifier is not empty and \<^verbatim>\<open>getSuffix\<close> returns none of the known
  suffixes, \<^verbatim>\<open>GetKey\<close> returns what the fallback scan of the specification returns
  on the listing of the directory. The files it reads are exactly those of the
  scan up to the first hit; each of them is in the listing, is no directory and
  is at most 64 KiB large, so a larger file is never read. A key it returns is an
  ECDSA or SM2 private key whose identifier is the requested one, an error it
  returns is the not-found error with the requested identifier and the path, and
  this error is returned when no file within the ceiling decodes to a private key
  with the requested identifier.
\<close>

theorem GetKey_fallback_scan:
  "length ski \<noteq> 0 \<and> getSuffix ks (EncodeToString ski) w = (suffix, w1) \<and>
   suffix \<notin> {''key'', ''sm4key'', ''sk'', ''pk''} \<and>
   ioutil_ReadDir w1 (path ks) = ((files, err), w2) \<longrightarrow>
     GetKey c ks ski w =
       (fallbackScan c ks ski files w2,
        w2\<lparr>log := log w2 @ map (readEvent ks)
          (filesRead (scanMatch c ks ski w2) (filter scanEligible files))\<rparr>) \<and>
     (\<forall>f \<in> set (filesRead (scanMatch c ks ski w2) (filter scanEligible files)).
        f \<in> set files \<and> \<not> fiIsDir f \<and> fiSize f \<le> 65536) \<and>
     (\<forall>k. fallbackScan c ks ski files w2 = Inr k \<longrightarrow>
        SKI c k = ski \<and> ((\<exists>kk. k = EcdsaPrivateKey kk) \<or> (\<exists>kk. k = Sm2PrivateKey kk))) \<and>
     (\<forall>e. fallbackScan c ks ski files w2 = Inl e \<longrightarrow> e = KeyWithSKINotFound ski (path ks)) \<and>
     ((\<forall>f \<in> set files. scanEligible f \<longrightarrow> \<not> scanMatch c ks ski w2 f) \<longrightarrow>
        fallbackScan c ks ski files w2 = Inl (KeyWithSKINotFound ski (path ks)))"
proof (intro impI conjI allI ballI)
  assume a: "length ski \<noteq> 0 \<and> getSuffix ks (EncodeToString ski) w = (suffix, w1) \<and>
   suffix \<notin> {''key'', ''sm4key'', ''sk'', ''pk''} \<and>
   ioutil_ReadDir w1 (path ks) = ((files, err), w2)"
  then have "GetKey c ks ski w = searchKeystoreForSKI c ks ski w1"
    by (simp add: GetKey_def)
  with a show "GetKey c ks ski w =
       (fallbackScan c ks ski files w2,
        w2\<lparr>log := log w2 @ map (readEvent ks)
          (filesRead (scanMatch c ks ski w2) (filter scanEligible files))\<rparr>)"
    by (simp add: searchKeystoreForSKI_spec)
next
  fix f
  assume "f \<in> set (filesRead (scanMatch c ks ski w2) (filter scanEligible files))"
  with filesRead_subset have f: "f \<in> set (filter scanEligible files)"
    by blast
  from f show "f \<in> set files" by simp
  from f show "\<not> fiIsDir f" by (simp add: scanEligible_def)
  from f show "fiSize f \<le> 65536" by (simp add: scanEligible_def)
next
  fix k
  assume "fallbackScan c ks ski files w2 = Inr k"
  from fallbackScan_Inr [OF this] show "SKI c k = ski"
    and "(\<exists>kk. k = EcdsaPrivateKey kk) \<or> (\<exists>kk. k = Sm2PrivateKey kk)"
    by simp_all
next
  fix e
  assume "fallbackScan c ks ski files w2 = Inl e"
  then show "e = KeyWithSKINotFound ski (path ks)"
    by (rule fallbackScan_Inl)
next
  assume "\<forall>f \<in> set files. scanEligible f \<longrightarrow> \<not> scanMatch c ks ski w2 f"
  then show "fallbackScan c ks ski files w2 = Inl (KeyWithSKINotFound ski (path ks))"
    by (rule fallbackScan_no_match)
qed

lemma sorted_scan: "sort_key fiName [externalEntry, bigEntry] = [bigEntry, externalEntry]"
  by (simp add: bigEntry_def externalEntry_def)

lemma ReadDir_scanWorld:
  "ioutil_ReadDir (scanWorld\<lparr>log := [(SysReadDir, ''ks'')]\<rparr>) (path openStore)
     = (([bigEntry, externalEntry], None),
        scanWorld\<lparr>log := [(SysReadDir, ''ks''), (SysReadDir, ''ks'')]\<rparr>)"
  by (simp add: ioutil_ReadDir_def scanWorld_def noFault_def record_call_def
        openStore_def sorted_scan del: sort_key_simps)

lemma hex_ab: "EncodeToString [0xab] = ''ab''"
  by (simp add: EncodeToString_def hextable_def)

lemma getSuffix_scanWorld:
  "getSuffix openStore (EncodeToString [0xab]) scanWorld
     = ([], scanWorld\<lparr>log := [(SysReadDir, ''ks'')]\<rparr>)"
  by (simp add: getSuffix_def ioutil_ReadDir_def scanWorld_def noFault_def record_call_def
        openStore_def sorted_scan hex_ab del: sort_key_simps)
     (simp add: HasPrefix_def bigEntry_def externalEntry_def)

lemma scanMatch_externalEntry:
  "scanMatch testCollab openStore [0xab]
     (scanWorld\<lparr>log := [(SysReadDir, ''ks''), (SysReadDir, ''ks'')]\<rparr>) externalEntry"
  by (simp add: scanMatch_def decodePrivateKey_def ioutil_ReadFile_def filepath_Join_def
      scanWorld_def noFault_def openStore_def externalEntry_def bigEntry_def testCollab_def
      testSKI_def)


lemma scanEligible_scanWorld:
  "filter scanEligible [bigEntry, externalEntry] = [externalEntry]"
  by (simp add: scanEligible_def bigEntry_def externalEntry_def)

lemma decodePrivateKey_externalEntry:
  "decodePrivateKey testCollab openStore
     (scanWorld\<lparr>log := [(SysReadDir, ''ks''), (SysReadDir, ''ks'')]\<rparr>) externalEntry
     = Some (EcdsaPrivateKey examplePrivateKey)"
  by (simp add: decodePrivateKey_def ioutil_ReadFile_def filepath_Join_def
      scanWorld_def noFault_def openStore_def externalEntry_def bigEntry_def testCollab_def)

lemma readEvent_externalEntry:
  "readEvent openStore externalEntry = (SysReadFile, ''ks/external.pem'')"
  by (simp add: readEvent_def pathString_def filepath_Join_def openStore_def externalEntry_def)

lemma hex_cd: "EncodeToString [0xcd] = ''cd''"
  by (simp add: EncodeToString_def hextable_def)

lemma getSuffix_scanWorld_cd:
  "getSuffix openStore (EncodeToString [0xcd]) scanWorld
     = ([], scanWorld\<lparr>log := [(SysReadDir, ''ks'')]\<rparr>)"
  by (simp add: getSuffix_def ioutil_ReadDir_def scanWorld_def noFault_def record_call_def
        openStore_def sorted_scan hex_cd del: sort_key_simps)
     (simp add: HasPrefix_def bigEntry_def externalEntry_def)

lemma scanMatch_externalEntry_cd:
  "\<not> scanMatch testCollab openStore [0xcd]
     (scanWorld\<lparr>log := [(SysReadDir, ''ks''), (SysReadDir, ''ks'')]\<rparr>) externalEntry"
  unfolding scanMatch_def decodePrivateKey_externalEntry
  by (simp add: testCollab_def testSKI_def)

lemma path_openStore: "path openStore = ''ks''"
  by (simp add: openStore_def)

theorem GetKey_fallback_scan_witness:
  "length [0xab :: byte] \<noteq> 0 \<and>
   getSuffix openStore (EncodeToString [0xab]) scanWorld
     = ([], scanWorld\<lparr>log := [(SysReadDir, ''ks'')]\<rparr>) \<and>
   [] \<notin> {''key'', ''sm4key'', ''sk'', ''pk''} \<and>
   ioutil_ReadDir (scanWorld\<lparr>log := [(SysReadDir, ''ks'')]\<rparr>) (path openStore)
     = (([bigEntry, externalEntry], None),
        scanWorld\<lparr>log := [(SysReadDir, ''ks''), (SysReadDir, ''ks'')]\<rparr>) \<and>
   fiSize bigEntry > 65536 \<and>
   GetKey testCollab openStore [0xab] scanWorld
     = (Inr (EcdsaPrivateKey examplePrivateKey),
        scanWorld\<lparr>log := [(SysReadDir, ''ks''), (SysReadDir, ''ks''),
                            (SysReadFile, ''ks/external.pem'')]\<rparr>) \<and>
   length [0xcd :: byte] \<noteq> 0 \<and>
   getSuffix openStore (EncodeToString [0xcd]) scanWorld
     = ([], scanWorld\<lparr>log := [(SysReadDir, ''ks'')]\<rparr>) \<and>
   \<not> scanEligible bigEntry \<and>
   \<not> scanMatch testCollab openStore [0xcd]
       (scanWorld\<lparr>log := [(SysReadDir, ''ks''), (SysReadDir, ''ks'')]\<rparr>) externalEntry \<and>
   GetKey testCollab openStore [0xcd] scanWorld
     = (Inl (KeyWithSKINotFound [0xcd] ''ks''),
        scanWorld\<lparr>log := [(SysReadDir, ''ks''), (SysReadDir, ''ks''),
                            (SysReadFile, ''ks/external.pem'')]\<rparr>)"
proof -
  have h: "length [0xab :: byte] \<noteq> 0 \<and>
     getSuffix openStore (EncodeToString [0xab]) scanWorld
       = ([], scanWorld\<lparr>log := [(SysReadDir, ''ks'')]\<rparr>) \<and>
     [] \<notin> {''key'', ''sm4key'', ''sk'', ''pk''} \<and>
     ioutil_ReadDir (scanWorld\<lparr>log := [(SysReadDir, ''ks'')]\<rparr>) (path openStore)
       = (([bigEntry, externalEntry], None),
          scanWorld\<lparr>log := [(SysReadDir, ''ks''), (SysReadDir, ''ks'')]\<rparr>)"
    using getSuffix_scanWorld ReadDir_scanWorld by simp
  have g: "GetKey testCollab openStore [0xab] scanWorld
     = (Inr (EcdsaPrivateKey examplePrivateKey),
        scanWorld\<lparr>log := [(SysReadDir, ''ks''), (SysReadDir, ''ks''),
                            (SysReadFile, ''ks/external.pem'')]\<rparr>)"
    using GetKey_fallback_scan [where c = testCollab, THEN mp, OF h, THEN conjunct1]
    unfolding fallbackScan_def scanEligible_scanWorld
    by (simp add: scanMatch_externalEntry decodePrivateKey_externalEntry
        readEvent_externalEntry)
  have b: "fiSize bigEntry > 65536" "\<not> scanEligible bigEntry"
    by (simp_all add: bigEntry_def scanEligible_def)
  have h': "length [0xcd :: byte] \<noteq> 0 \<and>
     getSuffix openStore (EncodeToString [0xcd]) scanWorld
       = ([], scanWorld\<lparr>log := [(SysReadDir, ''ks'')]\<rparr>) \<and>
     [] \<notin> {''key'', ''sm4key'', ''sk'', ''pk''} \<and>
     ioutil_ReadDir (scanWorld\<lparr>log := [(SysReadDir, ''ks'')]\<rparr>) (path openStore)
       = (([bigEntry, externalEntry], None),
          scanWorld\<lparr>log := [(SysReadDir, ''ks''), (SysReadDir, ''ks'')]\<rparr>)"
    using getSuffix_scanWorld_cd ReadDir_scanWorld by simp
  have n: "\<forall>f \<in> set [bigEntry, externalEntry]. scanEligible f \<longrightarrow>
       \<not> scanMatch testCollab openStore [0xcd]
           (scanWorld\<lparr>log := [(SysReadDir, ''ks''), (SysReadDir, ''ks'')]\<rparr>) f"
    using b scanMatch_externalEntry_cd by simp
  note t = GetKey_fallback_scan [where c = testCollab, THEN mp, OF h']
  from t have f: "fallbackScan testCollab openStore [0xcd] [bigEntry, externalEntry]
       (scanWorld\<lparr>log := [(SysReadDir, ''ks''), (SysReadDir, ''ks'')]\<rparr>)
     = Inl (KeyWithSKINotFound [0xcd] (path openStore))"
    using n by blast
  have g': "GetKey testCollab openStore [0xcd] scanWorld
     = (Inl (KeyWithSKINotFound [0xcd] ''ks''),
        scanWorld\<lparr>log := [(SysReadDir, ''ks''), (SysReadDir, ''ks''),
                            (SysReadFile, ''ks/external.pem'')]\<rparr>)"
    using t [THEN conjunct1]
    unfolding f scanEligible_scanWorld
    by (simp add: scanMatch_externalEntry_cd readEvent_externalEntry path_openStore)
  from h g b h' g' scanMatch_externalEntry_cd show ?thesis
    by simp
qed

subsection \<open>Prefixes of file names\<close>

lemma sorted_prefix: "sort_key fiName [shortEntry, longEntry] = [longEntry, shortEntry]"
  by (simp add: shortEntry_def longEntry_def)

lemma ReadDir_prefixWorld:
  "ioutil_ReadDir prefixWorld ''ks''
     = (([longEntry, shortEntry], None), prefixWorld\<lparr>log := [(SysReadDir, ''ks'')]\<rparr>)"
  by (simp add: ioutil_ReadDir_def prefixWorld_def noFault_def record_call_def sorted_prefix
      del: sort_key_simps)

lemma getSuffix_prefixWorld:
  "getSuffix openStore ''ab'' prefixWorld = (''sk'', prefixWorld\<lparr>log := [(SysReadDir, ''ks'')]\<rparr>)"
  by (simp add: getSuffix_def ReadDir_prefixWorld openStore_def)
     (simp add: HasPrefix_def HasSuffix_def longEntry_def)

text \<open>
  C8, at a directory that holds the files \<open>ab_pk\<close> and \<open>ab12_sk\<close>. The listing is
  sorted by name, so \<open>ab12_sk\<close> comes first; its name starts with the alias \<open>ab\<close>,
  and \<^verbatim>\<open>getSuffix\<close> takes the suffix of this file, whose identifier \<open>ab12\<close> is the
  longer one. \<^verbatim>\<open>GetKey\<close> for the identifier \<open>ab\<close> then reads \<open>ab_sk\<close>, which does not
  exist, and fails, although the key of this identifier is stored in \<open>ab_pk\<close>.
\<close>

theorem GetKey_prefix_collision:
  "HasPrefix (fiName longEntry) (EncodeToString [0xab]) \<and>
   getSuffix openStore (EncodeToString [0xab]) prefixWorld
     = (''sk'', prefixWorld\<lparr>log := [(SysReadDir, ''ks'')]\<rparr>) \<and>
   GetKey c openStore [0xab] prefixWorld
     = (Inl (FailedLoadingSecretKey [0xab] (OsError ENOENT)),
        prefixWorld\<lparr>log := [(SysReadDir, ''ks''), (SysReadFile, ''ks/ab_sk'')]\<rparr>)"
proof -
  have l: "loadPrivateKey c openStore ''ab'' (prefixWorld\<lparr>log := [(SysReadDir, ''ks'')]\<rparr>)
    = (Inl (OsError ENOENT),
       prefixWorld\<lparr>log := [(SysReadDir, ''ks''), (SysReadFile, ''ks/ab_sk'')]\<rparr>)"
    by (simp add: loadPrivateKey_def ioutil_ReadFile_def getPathForAlias_def filepath_Join_def
        pathString_def record_call_def openStore_def prefixWorld_def noFault_def
        shortEntry_def longEntry_def)
  have p: "HasPrefix (fiName longEntry) ''ab''"
    by (simp add: HasPrefix_def longEntry_def)
  show ?thesis
    using getSuffix_prefixWorld l p by (simp add: GetKey_def hex_ab)
qed

subsection \<open>Storing an SM4 key and looking it up\<close>

lemma HasPrefix_append: "HasPrefix (a @ b) a"
  by (simp add: HasPrefix_def)

lemma HasSuffix_append: "length x \<le> length b \<Longrightarrow> HasSuffix (a @ b) x = HasSuffix b x"
  by (simp add: HasSuffix_def)

lemma getSuffix_loop_sm4key:
  "getSuffix_loop alias (\<lparr>fiName = alias @ ''_sm4key'', fiIsDir = d, fiSize = n, fiMode = m, fiData = x\<rparr> # files) = ''key''"
  by (simp add: HasPrefix_append HasSuffix_append) (simp add: HasSuffix_def)

lemma getSuffix_loop_never_sm4key: "getSuffix_loop alias files \<noteq> ''sm4key''"
  by (induction files) auto

lemma searchKeystoreForSKI_never_sm4:
  "fst (searchKeystoreForSKI c ks ski w) \<noteq> Inr (Sm4PrivateKey b e)"
proof
  assume a: "fst (searchKeystoreForSKI c ks ski w) = Inr (Sm4PrivateKey b e)"
  obtain files err w2 where "ioutil_ReadDir w (path ks) = ((files, err), w2)"
    by (metis prod.exhaust)
  from searchKeystoreForSKI_spec [OF this, of c ski] a
  have "fallbackScan c ks ski files w2 = Inr (Sm4PrivateKey b e)"
    by simp
  from fallbackScan_Inr [OF this] show False
    by simp
qed

lemma GetKey_never_sm4: "fst (GetKey c ks ski w) \<noteq> Inr (Sm4PrivateKey b e)"
proof -
  obtain suffix w1 where g: "getSuffix ks (EncodeToString ski) w = (suffix, w1)"
    by (metis prod.exhaust)
  then have n: "suffix \<noteq> ''sm4key''"
    using getSuffix_loop_never_sm4key [of "EncodeToString ski"]
    by (auto simp: getSuffix_def split: prod.splits)
  show ?thesis
    using g n searchKeystoreForSKI_never_sm4 [of c ks ski w1 b e]
    by (simp add: GetKey_def split: prod.splits sum.splits iface.splits)
qed

lemma SKI_sm4Raw: "SKI testCollab (Sm4PrivateKey sm4Raw False) = [0x0a]"
  by (simp add: testCollab_def testSKI_def sm4Raw_def)

lemma hex_0a: "EncodeToString [0x0a] = ''0a''"
  by (simp add: EncodeToString_def hextable_def)

lemma sm4_import: "sm4ImportKeyOptsKeyImporter_KeyImport (IBytes (Some sm4Raw)) None = Inr (Sm4PrivateKey sm4Raw False)"
  by (simp add: sm4ImportKeyOptsKeyImporter_KeyImport_def sm4Raw_def)

lemma testSKI_sm4Raw: "testSKI (Sm4PrivateKey sm4Raw False) = [0x0a]"
  by (simp add: testSKI_def sm4Raw_def)

lemma length_sm4Raw: "length sm4Raw = 16"
  by (simp add: sm4Raw_def)

lemma StoreKey_sm4World:
  "StoreKey testCollab openStore (Some (Sm4PrivateKey sm4Raw False)) freshWorld = (None, sm4World)"
  by (simp add: StoreKey_def storeSm4Key_def testSKI_sm4Raw length_sm4Raw hex_0a
      testCollab_def openStore_def ioutil_WriteFile_def
      getPathForAlias_def filepath_Join_def pathString_def freshWorld_def noFault_def
      record_call_def sm4World_def sm4Entry_def)

lemma GetKey_sm4World:
  "GetKey testCollab openStore [0x0a] sm4World
     = (Inl (FailedLoadingKey [0x0a] (OsError ENOENT)),
        sm4World\<lparr>log := [(SysWriteFile, ''ks/0a_sm4key''), (SysReadDir, ''ks''),
                           (SysReadFile, ''ks/0a_key'')]\<rparr>)"
proof -
  have gs: "getSuffix openStore ''0a'' sm4World
     = (''key'', sm4World\<lparr>log := [(SysWriteFile, ''ks/0a_sm4key''), (SysReadDir, ''ks'')]\<rparr>)"
    by (simp add: getSuffix_def ioutil_ReadDir_def sm4World_def noFault_def record_call_def
        openStore_def sm4Entry_def HasPrefix_def HasSuffix_def)
  have lk: "loadKey testCollab openStore ''0a''
       (sm4World\<lparr>log := [(SysWriteFile, ''ks/0a_sm4key''), (SysReadDir, ''ks'')]\<rparr>)
     = (Inl (OsError ENOENT),
        sm4World\<lparr>log := [(SysWriteFile, ''ks/0a_sm4key''), (SysReadDir, ''ks''),
                           (SysReadFile, ''ks/0a_key'')]\<rparr>)"
    by (simp add: loadKey_def ioutil_ReadFile_def getPathForAlias_def filepath_Join_def
        pathString_def record_call_def sm4World_def noFault_def openStore_def sm4Entry_def)
  show ?thesis
    using gs lk by (simp add: GetKey_def hex_0a)
qed

text \<open>
  C1, for an SM4 key. \<^verbatim>\<open>getSuffix\<close> never returns \<open>sm4key\<close> (a name that ends in
  \<open>sm4key\<close> ends in \<open>key\<close>), so the SM4 branch of \<^verbatim>\<open>GetKey\<close> is never taken and
  \<^verbatim>\<open>GetKey\<close> never returns an SM4 key. At the key that the importer makes of
  \<open>sm4Raw\<close>, in a store on an empty directory: \<^verbatim>\<open>StoreKey\<close> succeeds and writes
  \<open>0a_sm4key\<close>, then \<^verbatim>\<open>GetKey\<close> with the identifier of the key looks for \<open>0a_key\<close>
  and fails. With every codec and every identifier function, \<^verbatim>\<open>GetKey\<close> after
  \<^verbatim>\<open>StoreKey\<close> of an SM4 key in this store returns an error.
\<close>

theorem StoreKey_GetKey_sm4:
  "(fst (GetKey c ks ski w) \<noteq> Inr (Sm4PrivateKey b e) \<and>
    sm4ImportKeyOptsKeyImporter_KeyImport (IBytes (Some sm4Raw)) None
      = Inr (Sm4PrivateKey sm4Raw False) \<and>
    SKI testCollab (Sm4PrivateKey sm4Raw False) = [0x0a] \<and>
    StoreKey testCollab openStore (Some (Sm4PrivateKey sm4Raw False)) freshWorld
      = (None, sm4World) \<and>
    GetKey testCollab openStore [0x0a] sm4World
      = (Inl (FailedLoadingKey [0x0a] (OsError ENOENT)),
         sm4World\<lparr>log := [(SysWriteFile, ''ks/0a_sm4key''), (SysReadDir, ''ks''),
                            (SysReadFile, ''ks/0a_key'')]\<rparr>)) \<and>
   isl (fst (GetKey c openStore (SKI c (Sm4PrivateKey b e))
              (snd (StoreKey c openStore (Some (Sm4PrivateKey b e)) freshWorld))))"
proof
  show "fst (GetKey c ks ski w) \<noteq> Inr (Sm4PrivateKey b e) \<and>
    sm4ImportKeyOptsKeyImporter_KeyImport (IBytes (Some sm4Raw)) None
      = Inr (Sm4PrivateKey sm4Raw False) \<and>
    SKI testCollab (Sm4PrivateKey sm4Raw False) = [0x0a] \<and>
    StoreKey testCollab openStore (Some (Sm4PrivateKey sm4Raw False)) freshWorld
      = (None, sm4World) \<and>
    GetKey testCollab openStore [0x0a] sm4World
      = (Inl (FailedLoadingKey [0x0a] (OsError ENOENT)),
         sm4World\<lparr>log := [(SysWriteFile, ''ks/0a_sm4key''), (SysReadDir, ''ks''),
                            (SysReadFile, ''ks/0a_key'')]\<rparr>)"
    using GetKey_never_sm4 [of c ks ski w b e] sm4_import SKI_sm4Raw StoreKey_sm4World
      GetKey_sm4World
    by simp
next
  let ?k = "Sm4PrivateKey b e"
  let ?hexski = "EncodeToString (SKI c ?k)"
  show "isl (fst (GetKey c openStore (SKI c ?k) (snd (StoreKey c openStore (Some ?k) freshWorld))))"
  proof (cases "SM4EncryptPEMBlock c ''SM4 PRIVATE KEY'' b (pwd openStore)")
    case (Inl err)
    then have "snd (StoreKey c openStore (Some ?k) freshWorld) = freshWorld"
      by (simp add: StoreKey_def storeSm4Key_def openStore_def)
    then show ?thesis
      by (simp add: GetKey_def getSuffix_def searchKeystoreForSKI_def ioutil_ReadDir_def
          freshWorld_def noFault_def record_call_def openStore_def)
  next
    case (Inr pem)
    let ?f = "\<lparr>fiName = ?hexski @ ''_sm4key'', fiIsDir = False, fiSize = length pem,
            fiMode = 0x180, fiData = pem\<rparr>"
    let ?w1 = "freshWorld\<lparr>nodes := [''ks'' \<mapsto> Directory 0x1ED [?f]],
        log := [(SysWriteFile, ''ks/'' @ ?hexski @ ''_sm4key'')]\<rparr>"
    let ?w2 = "?w1\<lparr>log := log ?w1 @ [(SysReadDir, ''ks'')]\<rparr>"
    from Inr have s: "snd (StoreKey c openStore (Some ?k) freshWorld) = ?w1"
      by (simp add: StoreKey_def storeSm4Key_def openStore_def ioutil_WriteFile_def
          getPathForAlias_def filepath_Join_def pathString_def freshWorld_def noFault_def
          record_call_def)
    have rd: "ioutil_ReadDir ?w1 ''ks'' = (([?f], None), ?w2)"
      by (simp add: ioutil_ReadDir_def freshWorld_def noFault_def record_call_def)
    have gs: "getSuffix openStore ?hexski ?w1 = (''key'', ?w2)"
      unfolding getSuffix_def using rd getSuffix_loop_sm4key [of ?hexski False "length pem" "0x180" pem "[]"]
      by (simp add: openStore_def del: getSuffix_loop.simps)
    have lk: "\<exists>w3. loadKey c openStore ?hexski ?w2 = (Inl (OsError ENOENT), w3)"
      by (simp add: loadKey_def ioutil_ReadFile_def getPathForAlias_def filepath_Join_def
          pathString_def freshWorld_def noFault_def openStore_def)
    show ?thesis
      unfolding s using gs lk
      by (auto simp: GetKey_def)
  qed
qed

subsection \<open>The empty identifier\<close>

text \<open>
  C10. \<^verbatim>\<open>GetKey\<close> with an identifier of length zero returns the invalid-SKI error;
  the world it returns is the one it was given, log included, so no system call
  was made: the directory is not listed and no file is read.
\<close>

theorem GetKey_zero_length_SKI:
  "GetKey c ks [] w = (Inl InvalidSKIZeroLength, w)"
  by (simp add: GetKey_def)

end
